theory Spec2Isabelle
  imports Complex_Main
begin

section \<open>Tensors of the host framework\<close>

text \<open>
  The framework type \<open>Real\<close> is embedded as the HOL type \<open>real\<close>: every product below is
  the exact product, without rounding, infinities or NaN.
\<close>

datatype Point = Point real real real

text \<open>
  A second-order tensor in three dimensions, stored row by row: \<open>Tensor33 a00 a01 a02 a10 ...\<close>
  has \<open>aij\<close> in row \<open>i\<close>, column \<open>j\<close>.
\<close>

datatype RankTwoTensor =
  Tensor33 real real real real real real real real real

text \<open>
  The nine-argument constructor \<open>RankTwoTensor(S11, S21, S31, S12, S22, S32, S13, S23, S33)\<close>
  of the framework takes its arguments column by column.
\<close>

definition RankTwoTensor9 ::
  "real \<Rightarrow> real \<Rightarrow> real \<Rightarrow> real \<Rightarrow> real \<Rightarrow> real \<Rightarrow> real \<Rightarrow> real \<Rightarrow> real \<Rightarrow> RankTwoTensor" where
  "RankTwoTensor9 s11 s21 s31 s12 s22 s32 s13 s23 s33 =
     Tensor33 s11 s12 s13 s21 s22 s23 s31 s32 s33"

definition zero_tensor :: RankTwoTensor where
  "zero_tensor = Tensor33 0 0 0 0 0 0 0 0 0"


fun entry :: "RankTwoTensor \<Rightarrow> nat \<Rightarrow> nat \<Rightarrow> real" where
  "entry (Tensor33 a00 a01 a02 a10 a11 a12 a20 a21 a22) i j =
     (if i = 0 then (if j = 0 then a00 else if j = 1 then a01 else a02)
      else if i = 1 then (if j = 0 then a10 else if j = 1 then a11 else a12)
      else (if j = 0 then a20 else if j = 1 then a21 else a22))"

text \<open>\<open>T * f\<close> for a tensor and a scalar: every component is multiplied by \<open>f\<close>.\<close>

fun smult :: "RankTwoTensor \<Rightarrow> real \<Rightarrow> RankTwoTensor" where
  "smult (Tensor33 a00 a01 a02 a10 a11 a12 a20 a21 a22) f =
     Tensor33 (a00 * f) (a01 * f) (a02 * f)
              (a10 * f) (a11 * f) (a12 * f)
              (a20 * f) (a21 * f) (a22 * f)"

fun transpose33 :: "RankTwoTensor \<Rightarrow> RankTwoTensor" where
  "transpose33 (Tensor33 a00 a01 a02 a10 a11 a12 a20 a21 a22) =
     Tensor33 a00 a10 a20 a01 a11 a21 a02 a12 a22"

fun mult33 :: "RankTwoTensor \<Rightarrow> RankTwoTensor \<Rightarrow> RankTwoTensor" where
  "mult33 (Tensor33 a00 a01 a02 a10 a11 a12 a20 a21 a22)
          (Tensor33 b00 b01 b02 b10 b11 b12 b20 b21 b22) =
     Tensor33 (a00 * b00 + a01 * b10 + a02 * b20)
              (a00 * b01 + a01 * b11 + a02 * b21)
              (a00 * b02 + a01 * b12 + a02 * b22)
              (a10 * b00 + a11 * b10 + a12 * b20)
              (a10 * b01 + a11 * b11 + a12 * b21)
              (a10 * b02 + a11 * b12 + a12 * b22)
              (a20 * b00 + a21 * b10 + a22 * b20)
              (a20 * b01 + a21 * b11 + a22 * b21)
              (a20 * b02 + a21 * b12 + a22 * b22)"


definition symmetric33 :: "RankTwoTensor \<Rightarrow> bool" where
  "symmetric33 T \<longleftrightarrow> transpose33 T = T"



fun tensor_row :: "RankTwoTensor \<Rightarrow> nat \<Rightarrow> real list" where
  "tensor_row (Tensor33 a00 a01 a02 a10 a11 a12 a20 a21 a22) i =
     (if i = 0 then [a00, a01, a02] else if i = 1 then [a10, a11, a12] else [a20, a21, a22])"

section \<open>Collaborators of the host framework\<close>

datatype error = IndexOutOfRange | CollaboratorError string

text \<open>
  What a call did to its prefactor sources, in order: the functor was evaluated for a
  quadrature point, the material property was read at a quadrature point.
\<close>

datatype event = FunctorEvaluated nat | MatPropRead nat

type_synonym 'a traced = "event list \<times> (error + 'a)"

text \<open>The time state handed to a functor (\<open>Moose::StateArg\<close>): 0 is the current state.\<close>

datatype StateArg = StateArg nat

record ElemQpArg =
  arg_elem :: nat
  arg_qp :: nat
  arg_qrule :: nat
  arg_point :: Point

text \<open>
  A functor and a material property are supplied by the host; evaluating or reading either
  may raise, which is the \<open>Inl\<close> result.
\<close>

type_synonym Functor = "ElemQpArg \<Rightarrow> StateArg \<Rightarrow> error + real"

type_synonym ScalarMaterialProperty = "nat \<Rightarrow> error + real"

text \<open>
  What the host holds while it calls \<open>computeQpProperties\<close>: the element, the quadrature
  rule, the physical coordinates of the rule's points, the time, and the state that
  \<open>determineState()\<close> returns.
\<close>

record Host =
  current_elem :: nat
  qrule :: nat
  q_point :: "Point list"
  current_time :: real
  state_arg :: StateArg

definition determineState :: "Host \<Rightarrow> StateArg" where
  "determineState h = state_arg h"

text \<open>
  Indexing a per-quadrature-point array. The source indexes without a check and the host
  only calls with an index in range; an index out of range, undefined in the source, is an
  error of the model.
\<close>

definition array_get :: "'a list \<Rightarrow> nat \<Rightarrow> error + 'a" where
  "array_get xs i = (if i < length xs then Inr (xs ! i) else Inl IndexOutOfRange)"

definition array_set :: "'a list \<Rightarrow> nat \<Rightarrow> 'a \<Rightarrow> error + 'a list" where
  "array_set xs i v = (if i < length xs then Inr (xs[i := v]) else Inl IndexOutOfRange)"

text \<open>
  Modelled from the spec: \<open>CartesianLocalCoordinateSystem::rotateLocalToGlobal\<close>, which is
  not part of the sources. The spec gives it as the in-place update \<open>T \<leftarrow> R T R\<^sup>T\<close> for the
  rotation \<open>R\<close> of the local coordinate system.
\<close>

record CartesianLocalCoordinateSystem =
  rotation_local_to_global :: RankTwoTensor

definition rotateLocalToGlobal ::
  "CartesianLocalCoordinateSystem \<Rightarrow> RankTwoTensor \<Rightarrow> RankTwoTensor" where
  "rotateLocalToGlobal lcs T =
     mult33 (mult33 (rotation_local_to_global lcs) T)
            (transpose33 (rotation_local_to_global lcs))"

section \<open>OpalinusPermeabilityTensor\<close>

record OpalinusPermeabilityTensor =
  localCoordinateSystem :: CartesianLocalCoordinateSystem
  permeability1 :: real
  permeability2 :: real
  permeability3 :: real
  prefactor_functor :: "Functor option"
  prefactor_matprop :: "ScalarMaterialProperty option"
  permeability_qp :: "RankTwoTensor list"
  dpermeability_qp_dvar :: "RankTwoTensor list list"
  dpermeability_qp_dgradvar :: "RankTwoTensor list list list"
  input_permeability :: RankTwoTensor

text \<open>
  The constructor. \<open>declareProperty\<close> gives each of the \<open>n_qp\<close> quadrature points a
  default-constructed value: the zero tensor, and the empty vector for the two derivative
  properties. The body builds the tensor in local coordinates and rotates it.
\<close>

definition OpalinusPermeabilityTensor_new ::
  "CartesianLocalCoordinateSystem \<Rightarrow> real \<Rightarrow> real \<Rightarrow> real \<Rightarrow> Functor option \<Rightarrow>
   ScalarMaterialProperty option \<Rightarrow> nat \<Rightarrow> OpalinusPermeabilityTensor" where
  "OpalinusPermeabilityTensor_new lcs k1 k2 k3 functor matprop n_qp =
     \<lparr> localCoordinateSystem = lcs,
       permeability1 = k1,
       permeability2 = k2,
       permeability3 = k3,
       prefactor_functor = functor,
       prefactor_matprop = matprop,
       permeability_qp = replicate n_qp zero_tensor,
       dpermeability_qp_dvar = replicate n_qp [],
       dpermeability_qp_dgradvar = replicate n_qp [],
       input_permeability =
         rotateLocalToGlobal lcs (RankTwoTensor9 k1 0 0 0 k2 0 0 0 k3) \<rparr>"

text \<open>
  The first half of the prefactor branch: \<open>f\<close> is the functor at the current point when a
  functor is configured, and 1.0 otherwise.
\<close>

definition functor_factor :: "Host \<Rightarrow> nat \<Rightarrow> OpalinusPermeabilityTensor \<Rightarrow> real traced" where
  "functor_factor h qp s =
     (case prefactor_functor s of
        Some fn \<Rightarrow>
          (case array_get (q_point h) qp of
             Inl e \<Rightarrow> ([], Inl e)
           | Inr p \<Rightarrow>
               ([FunctorEvaluated qp],
                fn \<lparr> arg_elem = current_elem h, arg_qp = qp, arg_qrule = qrule h,
                     arg_point = p \<rparr> (determineState h)))
      | None \<Rightarrow> ([], Inr 1))"

text \<open>The second half: \<open>if (_prefactor_matprop && f != 0.0) f *= (*_prefactor_matprop)[_qp]\<close>.\<close>

definition matprop_factor :: "nat \<Rightarrow> OpalinusPermeabilityTensor \<Rightarrow> real \<Rightarrow> real traced" where
  "matprop_factor qp s f =
     (case prefactor_matprop s of
        Some mp \<Rightarrow>
          (if f \<noteq> 0 then
             (case mp qp of
                Inl e \<Rightarrow> ([MatPropRead qp], Inl e)
              | Inr m \<Rightarrow> ([MatPropRead qp], Inr (f * m)))
           else ([], Inr f))
      | None \<Rightarrow> ([], Inr f))"

text \<open>The assignment \<open>_permeability_qp[_qp] = v\<close>.\<close>

definition publish_permeability ::
  "nat \<Rightarrow> RankTwoTensor \<Rightarrow> OpalinusPermeabilityTensor \<Rightarrow> error + OpalinusPermeabilityTensor" where
  "publish_permeability qp v s =
     (case array_set (permeability_qp s) qp v of
        Inl e \<Rightarrow> Inl e
      | Inr xs \<Rightarrow> Inr (s\<lparr>permeability_qp := xs\<rparr>))"

definition OpalinusPermeabilityTensor_computeQpProperties ::
  "Host \<Rightarrow> nat \<Rightarrow> OpalinusPermeabilityTensor \<Rightarrow> OpalinusPermeabilityTensor traced" where
  "OpalinusPermeabilityTensor_computeQpProperties h qp s =
     (if prefactor_functor s \<noteq> None \<or> prefactor_matprop s \<noteq> None then
        (case functor_factor h qp s of
           (tr1, Inl e) \<Rightarrow> (tr1, Inl e)
         | (tr1, Inr f) \<Rightarrow>
             (case matprop_factor qp s f of
                (tr2, Inl e) \<Rightarrow> (tr1 @ tr2, Inl e)
              | (tr2, Inr f') \<Rightarrow>
                  (tr1 @ tr2, publish_permeability qp (smult (input_permeability s) f') s)))
      else ([], publish_permeability qp (input_permeability s) s))"

text \<open>
  The host calls \<open>computeQpProperties\<close> once per visit of a quadrature point, each time
  with its own context; an error of a collaborator ends the traversal.
\<close>

fun host_traversal ::
  "(Host \<times> nat) list \<Rightarrow> OpalinusPermeabilityTensor \<Rightarrow> error + OpalinusPermeabilityTensor" where
  "host_traversal [] s = Inr s"
| "host_traversal ((h, qp) # calls) s =
     (case snd (OpalinusPermeabilityTensor_computeQpProperties h qp s) of
        Inl e \<Rightarrow> Inl e
      | Inr s' \<Rightarrow> host_traversal calls s')"

section \<open>OpalinusElasticityTensor\<close>

text \<open>A fourth-order tensor in three dimensions: its 81 components.\<close>

datatype RankFourTensor = RankFourTensor "real list"

fun smult4 :: "RankFourTensor \<Rightarrow> real \<Rightarrow> RankFourTensor" where
  "smult4 (RankFourTensor vals) f = RankFourTensor (map (\<lambda>x. x * f) vals)"

fun is_zero4 :: "RankFourTensor \<Rightarrow> bool" where
  "is_zero4 (RankFourTensor vals) = list_all (\<lambda>x. x = 0) vals"

text \<open>A \<open>Function\<close> of the host: a scalar of time and position, which may raise.\<close>

type_synonym Function = "real \<Rightarrow> Point \<Rightarrow> error + real"

text \<open>The members the class declaration lists.\<close>

record OpalinusElasticityTensor =
  base_name :: string
  elasticity_tensor_name :: string
  elasticity_tensor :: "RankFourTensor list"
  prefactor_function :: "Function option"
  Cijkl :: RankFourTensor
  geological_angles :: "real \<times> real \<times> real"
  geological_rotation :: RankTwoTensor
  Ep :: real
  Es :: real
  nu_p :: real
  nu_s :: real
  G_s :: real
  first_local_axis :: "real list list"
  second_local_axis :: "real list list"
  normal_local_axis :: "real list list"

text \<open>
  Modelled from the spec: the tensor that \<open>OpalinusElasticityTensor::computeQpProperties\<close>
  publishes; the sources hold the declaration of the class only. Without a
  \<open>prefactor_function\<close> it is the stored global \<open>C\<close>; with one, the function is evaluated at
  the physical coordinates of the point and the time, and \<open>C\<close> is multiplied by the scalar.
\<close>

definition scaled_elasticity ::
  "Host \<Rightarrow> nat \<Rightarrow> OpalinusElasticityTensor \<Rightarrow> error + RankFourTensor" where
  "scaled_elasticity h qp s =
     (case prefactor_function s of
        None \<Rightarrow> Inr (Cijkl s)
      | Some fn \<Rightarrow>
          (case array_get (q_point h) qp of
             Inl e \<Rightarrow> Inl e
           | Inr p \<Rightarrow>
               (case fn (current_time h) p of
                  Inl e \<Rightarrow> Inl e
                | Inr f \<Rightarrow> Inr (smult4 (Cijkl s) f))))"

text \<open>
  Modelled from the spec: \<open>OpalinusElasticityTensor::computeQpProperties\<close>, whose body is
  not part of the sources. It publishes the tensor and the three rows of the geological
  rotation as \<open>first_local_axis\<close>, \<open>second_local_axis\<close> and \<open>normal_local_axis\<close> at the
  current quadrature point.
\<close>

definition OpalinusElasticityTensor_computeQpProperties ::
  "Host \<Rightarrow> nat \<Rightarrow> OpalinusElasticityTensor \<Rightarrow> error + OpalinusElasticityTensor" where
  "OpalinusElasticityTensor_computeQpProperties h qp s =
     (case scaled_elasticity h qp s of
        Inl e \<Rightarrow> Inl e
      | Inr C \<Rightarrow>
     (case array_set (elasticity_tensor s) qp C of
        Inl e \<Rightarrow> Inl e
      | Inr et \<Rightarrow>
     (case array_set (first_local_axis s) qp (tensor_row (geological_rotation s) 0) of
        Inl e \<Rightarrow> Inl e
      | Inr a1 \<Rightarrow>
     (case array_set (second_local_axis s) qp (tensor_row (geological_rotation s) 1) of
        Inl e \<Rightarrow> Inl e
      | Inr a2 \<Rightarrow>
     (case array_set (normal_local_axis s) qp (tensor_row (geological_rotation s) 2) of
        Inl e \<Rightarrow> Inl e
      | Inr a3 \<Rightarrow>
          Inr (s\<lparr>elasticity_tensor := et, first_local_axis := a1,
                 second_local_axis := a2, normal_local_axis := a3\<rparr>))))))"











section \<open>Sample configurations\<close>

text \<open>A local frame turned by a quarter turn about the third global axis.\<close>

definition quarter_turn :: RankTwoTensor where
  "quarter_turn = Tensor33 0 (-1) 0 1 0 0 0 0 1"

definition sample_lcs :: CartesianLocalCoordinateSystem where
  "sample_lcs = \<lparr> rotation_local_to_global = quarter_turn \<rparr>"


definition sample_host :: Host where
  "sample_host =
     \<lparr> current_elem = 7, qrule = 0, q_point = [Point 0 0 0, Point 1 0 0],
       current_time = 1 / 2, state_arg = StateArg 0 \<rparr>"

definition constant_functor :: "real \<Rightarrow> Functor" where
  "constant_functor c = (\<lambda>arg st. Inr c)"

definition constant_matprop :: "real \<Rightarrow> ScalarMaterialProperty" where
  "constant_matprop c = (\<lambda>qp. Inr c)"

definition throwing_matprop :: ScalarMaterialProperty where
  "throwing_matprop = (\<lambda>qp. Inl (CollaboratorError ''property not available''))"

definition constant_function :: "real \<Rightarrow> Function" where
  "constant_function c = (\<lambda>t p. Inr c)"

definition sample_permeability ::
  "Functor option \<Rightarrow> ScalarMaterialProperty option \<Rightarrow> OpalinusPermeabilityTensor" where
  "sample_permeability functor matprop =
     OpalinusPermeabilityTensor_new sample_lcs 1 2 3 functor matprop 2"

definition sample_elasticity :: "Function option \<Rightarrow> OpalinusElasticityTensor" where
  "sample_elasticity fn =
     \<lparr> base_name = [],
       elasticity_tensor_name = ''elasticity_tensor'',
       elasticity_tensor = replicate 2 (RankFourTensor (replicate 81 0)),
       prefactor_function = fn,
       Cijkl = RankFourTensor (replicate 81 4),
       geological_angles = (0, 0, 90),
       geological_rotation = quarter_turn,
       Ep = 10, Es = 10, nu_p = 1 / 4, nu_s = 1 / 4, G_s = 4,
       first_local_axis = replicate 2 [],
       second_local_axis = replicate 2 [],
       normal_local_axis = replicate 2 [] \<rparr>"

section \<open>Facts about tensors\<close>

lemma smult_zero: "smult T 0 = zero_tensor"
  by (cases T) (simp add: zero_tensor_def)

lemma smult_smult: "smult (smult T f) m = smult T (f * m)"
  by (cases T) (simp add: mult.assoc)

lemma entry_smult: "entry (smult T f) i j = entry T i j * f"
  by (cases T) simp

lemma rotate_diag_symmetric:
  "symmetric33 (mult33 (mult33 R (Tensor33 k1 0 0 0 k2 0 0 0 k3)) (transpose33 R))"
  by (cases R) (simp add: symmetric33_def mult.commute mult.left_commute)

lemma smult4_zero: "is_zero4 (smult4 C 0)"
  by (cases C) (simp add: list_all_iff)










section \<open>Facts about the two evaluators\<close>

lemma publish_permeability_Inr:
  assumes "publish_permeability qp v s = Inr s'"
  shows "qp < length (permeability_qp s)"
    and "s' = s\<lparr>permeability_qp := (permeability_qp s)[qp := v]\<rparr>"
  using assms by (auto simp: publish_permeability_def array_set_def split: if_splits)

lemma publish_permeability_in_range:
  "qp < length (permeability_qp s) \<Longrightarrow>
   publish_permeability qp v s = Inr (s\<lparr>permeability_qp := (permeability_qp s)[qp := v]\<rparr>)"
  by (simp add: publish_permeability_def array_set_def)

lemma computeQpProperties_published:
  assumes "OpalinusPermeabilityTensor_computeQpProperties h qp s = (tr, Inr s')"
  shows "\<exists>v. publish_permeability qp v s = Inr s'"
  using assms
  by (auto simp: OpalinusPermeabilityTensor_computeQpProperties_def
      split: if_splits prod.splits sum.splits)

lemma computeQpProperties_frame:
  assumes "OpalinusPermeabilityTensor_computeQpProperties h qp s = (tr, Inr s')"
  shows "qp < length (permeability_qp s)"
    and "\<exists>v. s' = s\<lparr>permeability_qp := (permeability_qp s)[qp := v]\<rparr>"
  using computeQpProperties_published [OF assms] publish_permeability_Inr by blast+

lemma computeQpProperties_no_prefactor:
  assumes "prefactor_functor s = None" and "prefactor_matprop s = None"
  shows "OpalinusPermeabilityTensor_computeQpProperties h qp s =
           ([], publish_permeability qp (input_permeability s) s)"
  using assms by (simp add: OpalinusPermeabilityTensor_computeQpProperties_def)

lemma host_traversal_no_prefactor:
  assumes "prefactor_functor s = None" and "prefactor_matprop s = None"
    and "host_traversal calls s = Inr s'"
  shows "input_permeability s' = input_permeability s
     \<and> length (permeability_qp s') = length (permeability_qp s)
     \<and> (\<forall>i < length (permeability_qp s).
           permeability_qp s ! i = input_permeability s \<or> i \<in> snd ` set calls
           \<longrightarrow> permeability_qp s' ! i = input_permeability s)
     \<and> snd ` set calls \<subseteq> {..< length (permeability_qp s)}"
  using assms
proof (induction calls arbitrary: s)
  case Nil
  then show ?case by simp
next
  case (Cons c calls)
  obtain h qp where c: "c = (h, qp)"
    by (cases c)
  from Cons.prems(3) obtain s1
    where pub: "publish_permeability qp (input_permeability s) s = Inr s1"
      and rest: "host_traversal calls s1 = Inr s'"
    by (auto simp: c computeQpProperties_no_prefactor [OF Cons.prems(1,2)] split: sum.splits)
  from publish_permeability_Inr [OF pub]
  have r: "qp < length (permeability_qp s)"
    and s1: "s1 = s\<lparr>permeability_qp := (permeability_qp s)[qp := input_permeability s]\<rparr>"
    by simp_all
  have p1: "prefactor_functor s1 = None" and p2: "prefactor_matprop s1 = None"
    using Cons.prems(1,2) by (simp_all add: s1)
  from Cons.IH [OF p1 p2 rest]
  have ih: "input_permeability s' = input_permeability s"
    "length (permeability_qp s') = length (permeability_qp s)"
    "\<forall>i < length (permeability_qp s).
           permeability_qp s1 ! i = input_permeability s \<or> i \<in> snd ` set calls
           \<longrightarrow> permeability_qp s' ! i = input_permeability s"
    "snd ` set calls \<subseteq> {..< length (permeability_qp s)}"
    by (simp_all add: s1)
  have "\<forall>i < length (permeability_qp s).
           permeability_qp s ! i = input_permeability s \<or> i \<in> snd ` set (c # calls)
           \<longrightarrow> permeability_qp s' ! i = input_permeability s"
  proof (intro allI impI)
    fix i
    assume i: "i < length (permeability_qp s)"
      and d: "permeability_qp s ! i = input_permeability s \<or> i \<in> snd ` set (c # calls)"
    have "permeability_qp s1 ! i = input_permeability s \<or> i \<in> snd ` set calls"
      using d i by (cases "i = qp") (auto simp: s1 c)
    with ih(3) i show "permeability_qp s' ! i = input_permeability s"
      by blast
  qed
  with ih r show ?case
    by (simp add: c)
qed

lemma host_traversal_derivatives:
  assumes "host_traversal calls s = Inr s'"
  shows "dpermeability_qp_dvar s' = dpermeability_qp_dvar s
     \<and> dpermeability_qp_dgradvar s' = dpermeability_qp_dgradvar s"
  using assms
proof (induction calls arbitrary: s)
  case Nil
  then show ?case by simp
next
  case (Cons c calls)
  obtain h qp where c: "c = (h, qp)"
    by (cases c)
  from Cons.prems obtain tr s1
    where step: "OpalinusPermeabilityTensor_computeQpProperties h qp s = (tr, Inr s1)"
      and rest: "host_traversal calls s1 = Inr s'"
    by (cases "OpalinusPermeabilityTensor_computeQpProperties h qp s")
      (auto simp: c split: sum.splits)
  from computeQpProperties_frame(2) [OF step]
  have "dpermeability_qp_dvar s1 = dpermeability_qp_dvar s
     \<and> dpermeability_qp_dgradvar s1 = dpermeability_qp_dgradvar s"
    by auto
  with Cons.IH [OF rest] show ?case
    by simp
qed

lemma permeability_zero_prefactor:
  assumes run: "OpalinusPermeabilityTensor_computeQpProperties h qp s = (tr, Inr s')"
    and zero: "(\<exists>fn. prefactor_functor s = Some fn
                 \<and> fn \<lparr> arg_elem = current_elem h, arg_qp = qp, arg_qrule = qrule h,
                        arg_point = q_point h ! qp \<rparr> (determineState h) = Inr 0)
             \<or> (\<exists>mp. prefactor_matprop s = Some mp \<and> mp qp = Inr 0)"
  shows "permeability_qp s' ! qp = zero_tensor"
proof -
  from run zero have "publish_permeability qp zero_tensor s = Inr s'"
    by (auto simp: OpalinusPermeabilityTensor_computeQpProperties_def functor_factor_def
        matprop_factor_def array_get_def smult_zero
        split: if_splits option.splits sum.splits prod.splits)
  from publish_permeability_Inr [OF this] show ?thesis
    by simp
qed

lemma elasticity_computeQpProperties_Inr:
  assumes "OpalinusElasticityTensor_computeQpProperties h qp s = Inr s'"
  shows "\<exists>C. scaled_elasticity h qp s = Inr C
     \<and> qp < length (elasticity_tensor s) \<and> qp < length (first_local_axis s)
     \<and> qp < length (second_local_axis s) \<and> qp < length (normal_local_axis s)
     \<and> s' = s\<lparr>elasticity_tensor := (elasticity_tensor s)[qp := C],
              first_local_axis :=
                (first_local_axis s)[qp := tensor_row (geological_rotation s) 0],
              second_local_axis :=
                (second_local_axis s)[qp := tensor_row (geological_rotation s) 1],
              normal_local_axis :=
                (normal_local_axis s)[qp := tensor_row (geological_rotation s) 2]\<rparr>"
  using assms
  by (auto simp: OpalinusElasticityTensor_computeQpProperties_def array_set_def
      split: sum.splits if_splits)

lemma elasticity_computeQpProperties_in_range:
  assumes "scaled_elasticity h qp s = Inr C"
    and "qp < length (elasticity_tensor s)" and "qp < length (first_local_axis s)"
    and "qp < length (second_local_axis s)" and "qp < length (normal_local_axis s)"
  shows "OpalinusElasticityTensor_computeQpProperties h qp s =
     Inr (s\<lparr>elasticity_tensor := (elasticity_tensor s)[qp := C],
              first_local_axis :=
                (first_local_axis s)[qp := tensor_row (geological_rotation s) 0],
              second_local_axis :=
                (second_local_axis s)[qp := tensor_row (geological_rotation s) 1],
              normal_local_axis :=
                (normal_local_axis s)[qp := tensor_row (geological_rotation s) 2]\<rparr>)"
  using assms
  by (simp add: OpalinusElasticityTensor_computeQpProperties_def array_set_def)




section \<open>Facts about the sample configurations\<close>

lemmas evaluator_defs =
  OpalinusPermeabilityTensor_computeQpProperties_def functor_factor_def matprop_factor_def
  publish_permeability_def array_get_def array_set_def

lemma sample_K:
  "input_permeability (sample_permeability functor matprop) = Tensor33 2 0 0 0 1 0 0 0 3"
  by (simp add: sample_permeability_def OpalinusPermeabilityTensor_new_def sample_lcs_def
      rotateLocalToGlobal_def RankTwoTensor9_def quarter_turn_def)

lemma sample_permeability_fields:
  "prefactor_functor (sample_permeability functor matprop) = functor"
  "prefactor_matprop (sample_permeability functor matprop) = matprop"
  "permeability_qp (sample_permeability functor matprop) = [zero_tensor, zero_tensor]"
  "dpermeability_qp_dvar (sample_permeability functor matprop) = [[], []]"
  "dpermeability_qp_dgradvar (sample_permeability functor matprop) = [[], []]"
  by (simp_all add: sample_permeability_def OpalinusPermeabilityTensor_new_def numeral_2_eq_2)

lemma sample_host_fields:
  "q_point sample_host = [Point 0 0 0, Point 1 0 0]"
  "current_time sample_host = 1 / 2"
  by (simp_all add: sample_host_def)

lemma sample_elasticity_fields:
  "prefactor_function (sample_elasticity fn) = fn"
  "Cijkl (sample_elasticity fn) = RankFourTensor (replicate 81 4)"
  "geological_rotation (sample_elasticity fn) = quarter_turn"
  "length (elasticity_tensor (sample_elasticity fn)) = 2"
  "length (first_local_axis (sample_elasticity fn)) = 2"
  "length (second_local_axis (sample_elasticity fn)) = 2"
  "length (normal_local_axis (sample_elasticity fn)) = 2"
  by (simp_all add: sample_elasticity_def)

lemma sample_elasticity_runs:
  assumes that: "qp < 2"
  shows "\<exists>s'. OpalinusElasticityTensor_computeQpProperties sample_host qp
          (sample_elasticity (Some (constant_function c))) = Inr s'"
proof -
  have "scaled_elasticity sample_host qp (sample_elasticity (Some (constant_function c)))
      = Inr (smult4 (RankFourTensor (replicate 81 4)) c)"
    using that
    by (simp add: scaled_elasticity_def array_get_def sample_elasticity_fields
        sample_host_fields constant_function_def)
  from elasticity_computeQpProperties_in_range [OF this] that show ?thesis
    by (simp add: sample_elasticity_fields)
qed


section \<open>Properties of the permeability evaluator\<close>

text \<open>
  Claim C1. Both prefactors are configured and the functor evaluates to zero at the current
  quadrature point: the call succeeds whatever the material property would return or raise,
  its trace holds the functor evaluation alone, so the material property is not read, and
  the tensor published at the point is the zero tensor.
\<close>

theorem C1_zero_functor_skips_matprop:
  assumes "prefactor_functor s = Some fn"
    and "prefactor_matprop s = Some mp"
    and "qp < length (q_point h)"
    and "qp < length (permeability_qp s)"
    and "fn \<lparr> arg_elem = current_elem h, arg_qp = qp, arg_qrule = qrule h,
              arg_point = q_point h ! qp \<rparr> (determineState h) = Inr 0"
  shows "OpalinusPermeabilityTensor_computeQpProperties h qp s =
           ([FunctorEvaluated qp],
            Inr (s\<lparr>permeability_qp := (permeability_qp s)[qp := zero_tensor]\<rparr>))
         \<and> MatPropRead qp \<notin> set (fst (OpalinusPermeabilityTensor_computeQpProperties h qp s))
         \<and> (permeability_qp s)[qp := zero_tensor] ! qp = zero_tensor"
proof -
  have ff: "functor_factor h qp s = ([FunctorEvaluated qp], Inr 0)"
    using assms by (simp add: functor_factor_def array_get_def)
  have mf: "matprop_factor qp s 0 = ([], Inr 0)"
    using assms by (simp add: matprop_factor_def)
  have run: "OpalinusPermeabilityTensor_computeQpProperties h qp s =
           ([FunctorEvaluated qp],
            Inr (s\<lparr>permeability_qp := (permeability_qp s)[qp := zero_tensor]\<rparr>))"
    using assms(1,4)
    by (simp add: OpalinusPermeabilityTensor_computeQpProperties_def ff mf
        publish_permeability_def array_set_def smult_zero)
  show ?thesis
    using assms(4) by (simp add: run)
qed

theorem C1_zero_functor_skips_matprop_witness:
  "prefactor_functor (sample_permeability (Some (constant_functor 0)) (Some throwing_matprop))
     = Some (constant_functor 0)
   \<and> prefactor_matprop (sample_permeability (Some (constant_functor 0)) (Some throwing_matprop))
     = Some throwing_matprop
   \<and> (1::nat) < length (q_point sample_host)
   \<and> throwing_matprop 1 = Inl (CollaboratorError ''property not available'')
   \<and> OpalinusPermeabilityTensor_computeQpProperties sample_host 1
        (sample_permeability (Some (constant_functor 0)) (Some throwing_matprop))
      = ([FunctorEvaluated 1],
         Inr ((sample_permeability (Some (constant_functor 0)) (Some throwing_matprop))
               \<lparr>permeability_qp := [zero_tensor, zero_tensor]\<rparr>))"
proof -
  let ?s = "sample_permeability (Some (constant_functor 0)) (Some throwing_matprop)"
  have h1: "prefactor_functor ?s = Some (constant_functor 0)"
    by (simp add: sample_permeability_def OpalinusPermeabilityTensor_new_def)
  have h2: "prefactor_matprop ?s = Some throwing_matprop"
    by (simp add: sample_permeability_def OpalinusPermeabilityTensor_new_def)
  have h3: "(1::nat) < length (q_point sample_host)"
    by (simp add: sample_host_def)
  have h4: "(1::nat) < length (permeability_qp ?s)"
    by (simp add: sample_permeability_def OpalinusPermeabilityTensor_new_def)
  have h5: "constant_functor 0 \<lparr> arg_elem = current_elem sample_host, arg_qp = 1,
      arg_qrule = qrule sample_host, arg_point = q_point sample_host ! 1 \<rparr>
      (determineState sample_host) = Inr 0"
    by (simp add: constant_functor_def)
  have upd: "(permeability_qp ?s)[Suc 0 := zero_tensor] = [zero_tensor, zero_tensor]"
    by (simp add: sample_permeability_def OpalinusPermeabilityTensor_new_def numeral_2_eq_2)
  have h6: "throwing_matprop 1 = Inl (CollaboratorError ''property not available'')"
    by (simp add: throwing_matprop_def)
  from C1_zero_functor_skips_matprop [OF h1 h2 h3 h4 h5]
  have "OpalinusPermeabilityTensor_computeQpProperties sample_host 1 ?s
      = ([FunctorEvaluated 1], Inr (?s\<lparr>permeability_qp := [zero_tensor, zero_tensor]\<rparr>))"
    by (simp add: upd)
  with h1 h2 h3 h6 show ?thesis
    by blast
qed

text \<open>
  Claim C2. The tensor stored at construction is \<open>R \<cdot> diag(k1, k2, k3) \<cdot> R\<^sup>T\<close> for the
  rotation \<open>R\<close> of the local coordinate system, and it is symmetric. Neither fact needs
  \<open>R\<close> to be orthogonal, so both hold in particular for every proper rotation.
\<close>

theorem C2_stored_tensor:
  "input_permeability (OpalinusPermeabilityTensor_new lcs k1 k2 k3 functor matprop n_qp)
     = mult33 (mult33 (rotation_local_to_global lcs) (Tensor33 k1 0 0 0 k2 0 0 0 k3))
              (transpose33 (rotation_local_to_global lcs))
   \<and> symmetric33 (input_permeability
        (OpalinusPermeabilityTensor_new lcs k1 k2 k3 functor matprop n_qp))"
  by (simp add: OpalinusPermeabilityTensor_new_def rotateLocalToGlobal_def RankTwoTensor9_def
      rotate_diag_symmetric)

text \<open>
  Claim C3. Both prefactors are configured, the functor evaluates to a nonzero \<open>f\<close> and the
  material property holds \<open>m\<close> at the current quadrature point: the functor is evaluated,
  then the property is read, and the tensor published at the point is \<open>K * (f * m)\<close> for
  the stored tensor \<open>K\<close>, which is \<open>(K * f) * m\<close>: each component is the component of \<open>K\<close>
  times \<open>f\<close> times \<open>m\<close>.
\<close>

theorem C3_product_rule:
  assumes "prefactor_functor s = Some fn"
    and "prefactor_matprop s = Some mp"
    and "qp < length (q_point h)"
    and "qp < length (permeability_qp s)"
    and "fn \<lparr> arg_elem = current_elem h, arg_qp = qp, arg_qrule = qrule h,
              arg_point = q_point h ! qp \<rparr> (determineState h) = Inr f"
    and "f \<noteq> 0"
    and "mp qp = Inr m"
  shows "OpalinusPermeabilityTensor_computeQpProperties h qp s =
           ([FunctorEvaluated qp, MatPropRead qp],
            Inr (s\<lparr>permeability_qp :=
                     (permeability_qp s)[qp := smult (input_permeability s) (f * m)]\<rparr>))
         \<and> smult (input_permeability s) (f * m) = smult (smult (input_permeability s) f) m
         \<and> (\<forall>i j. entry (smult (input_permeability s) (f * m)) i j =
                    entry (input_permeability s) i j * f * m)"
proof -
  have ff: "functor_factor h qp s = ([FunctorEvaluated qp], Inr f)"
    using assms(1,3,5) by (simp add: functor_factor_def array_get_def)
  have mf: "matprop_factor qp s f = ([MatPropRead qp], Inr (f * m))"
    using assms(2,6,7) by (simp add: matprop_factor_def)
  have "OpalinusPermeabilityTensor_computeQpProperties h qp s =
           ([FunctorEvaluated qp, MatPropRead qp],
            Inr (s\<lparr>permeability_qp :=
                     (permeability_qp s)[qp := smult (input_permeability s) (f * m)]\<rparr>))"
    using assms(1,4)
    by (simp add: OpalinusPermeabilityTensor_computeQpProperties_def ff mf
        publish_permeability_in_range)
  then show ?thesis
    by (simp add: entry_smult smult_smult mult.assoc)
qed

theorem C3_product_rule_witness:
  "constant_functor 2 \<lparr> arg_elem = current_elem sample_host, arg_qp = 0,
       arg_qrule = qrule sample_host, arg_point = q_point sample_host ! 0 \<rparr>
       (determineState sample_host) = Inr 2
   \<and> (2::real) \<noteq> 0
   \<and> constant_matprop (1 / 2) 0 = Inr (1 / 2)
   \<and> OpalinusPermeabilityTensor_computeQpProperties sample_host 0
        (sample_permeability (Some (constant_functor 2)) (Some (constant_matprop (1 / 2))))
      = ([FunctorEvaluated 0, MatPropRead 0],
         Inr ((sample_permeability (Some (constant_functor 2))
                 (Some (constant_matprop (1 / 2))))
               \<lparr>permeability_qp := [Tensor33 2 0 0 0 1 0 0 0 3, zero_tensor]\<rparr>))"
proof -
  let ?s = "sample_permeability (Some (constant_functor 2)) (Some (constant_matprop (1 / 2)))"
  have h1: "prefactor_functor ?s = Some (constant_functor 2)"
    and h2: "prefactor_matprop ?s = Some (constant_matprop (1 / 2))"
    and h3: "0 < length (q_point sample_host)"
    and h4: "0 < length (permeability_qp ?s)"
    by (simp_all add: sample_permeability_fields sample_host_fields)
  have h5: "constant_functor 2 \<lparr> arg_elem = current_elem sample_host, arg_qp = 0,
       arg_qrule = qrule sample_host, arg_point = q_point sample_host ! 0 \<rparr>
       (determineState sample_host) = Inr 2"
    by (simp add: constant_functor_def)
  have h6: "(2::real) \<noteq> 0"
    by simp
  have h7: "constant_matprop (1 / 2) 0 = Inr (1 / 2)"
    by (simp add: constant_matprop_def)
  have upd: "(permeability_qp ?s)[0 := smult (input_permeability ?s) (2 * (1 / 2))]
      = [Tensor33 2 0 0 0 1 0 0 0 3, zero_tensor]"
    by (simp add: sample_permeability_fields sample_K)
  from C3_product_rule [OF h1 h2 h3 h4 h5 h6 h7]
  have "OpalinusPermeabilityTensor_computeQpProperties sample_host 0 ?s
      = ([FunctorEvaluated 0, MatPropRead 0],
         Inr (?s\<lparr>permeability_qp := [Tensor33 2 0 0 0 1 0 0 0 3, zero_tensor]\<rparr>))"
    unfolding upd by blast
  with h5 h6 h7 show ?thesis
    by blast
qed

text \<open>
  Claim C4. With neither prefactor configured, a call at a quadrature point in range reads
  nothing and publishes the stored tensor unchanged, whatever the host's element, point and
  time are. After any traversal of the host the stored tensor is the one it was, and every
  quadrature point the traversal visited holds it.
\<close>

theorem C4_no_prefactor:
  assumes "prefactor_functor s = None" and "prefactor_matprop s = None"
  shows "(qp < length (permeability_qp s) \<longrightarrow>
            OpalinusPermeabilityTensor_computeQpProperties h qp s =
              ([], Inr (s\<lparr>permeability_qp :=
                            (permeability_qp s)[qp := input_permeability s]\<rparr>)))
     \<and> (\<forall>calls s'. host_traversal calls s = Inr s' \<longrightarrow>
           input_permeability s' = input_permeability s
           \<and> (\<forall>c \<in> set calls. permeability_qp s' ! snd c = input_permeability s))"
proof -
  have one: "qp < length (permeability_qp s) \<longrightarrow>
            OpalinusPermeabilityTensor_computeQpProperties h qp s =
              ([], Inr (s\<lparr>permeability_qp :=
                            (permeability_qp s)[qp := input_permeability s]\<rparr>))"
    by (simp add: computeQpProperties_no_prefactor [OF assms] publish_permeability_in_range)
  have many: "input_permeability s' = input_permeability s
           \<and> (\<forall>c \<in> set calls. permeability_qp s' ! snd c = input_permeability s)"
    if "host_traversal calls s = Inr s'" for calls s'
    using host_traversal_no_prefactor [OF assms that] by auto
  from one many show ?thesis
    by blast
qed

theorem C4_no_prefactor_witness:
  "prefactor_functor (sample_permeability None None) = None
   \<and> prefactor_matprop (sample_permeability None None) = None
   \<and> OpalinusPermeabilityTensor_computeQpProperties sample_host 1 (sample_permeability None None)
      = ([], Inr ((sample_permeability None None)
                   \<lparr>permeability_qp := [zero_tensor, Tensor33 2 0 0 0 1 0 0 0 3]\<rparr>))
   \<and> (\<exists>s'. host_traversal
              [(sample_host, 0), (sample_host\<lparr>current_time := 3\<rparr>, 1)]
              (sample_permeability None None) = Inr s'
          \<and> permeability_qp s' ! 0 = Tensor33 2 0 0 0 1 0 0 0 3
          \<and> permeability_qp s' ! 1 = Tensor33 2 0 0 0 1 0 0 0 3)"
proof -
  let ?s = "sample_permeability None None"
  let ?calls = "[(sample_host, 0), (sample_host\<lparr>current_time := 3\<rparr>, 1::nat)]"
  have h1: "prefactor_functor ?s = None" and h2: "prefactor_matprop ?s = None"
    by (simp_all add: sample_permeability_fields)
  note c4 = C4_no_prefactor [OF h1 h2]
  have one: "OpalinusPermeabilityTensor_computeQpProperties sample_host 1 ?s
      = ([], Inr (?s\<lparr>permeability_qp := [zero_tensor, Tensor33 2 0 0 0 1 0 0 0 3]\<rparr>))"
    using c4 [of 1 sample_host] by (simp add: sample_permeability_fields sample_K)
  obtain s' where run: "host_traversal ?calls ?s = Inr s'"
    by (simp add: evaluator_defs sample_permeability_fields)
  from c4 [of 0 sample_host] run
  have "\<forall>c \<in> set ?calls. permeability_qp s' ! snd c = input_permeability ?s"
    by blast
  then have "permeability_qp s' ! 0 = Tensor33 2 0 0 0 1 0 0 0 3"
    and "permeability_qp s' ! 1 = Tensor33 2 0 0 0 1 0 0 0 3"
    by (simp_all add: sample_K)
  with h1 h2 one run show ?thesis
    by blast
qed

text \<open>
  Claim C5. Only the material property is configured and it holds \<open>m\<close> at the current
  quadrature point: the factor starts at 1, the property is read and the factor becomes
  \<open>1 * m\<close>, and the tensor published at the point is \<open>K * m\<close>.
\<close>

theorem C5_matprop_only:
  assumes "prefactor_functor s = None"
    and "prefactor_matprop s = Some mp"
    and "qp < length (permeability_qp s)"
    and "mp qp = Inr m"
  shows "functor_factor h qp s = ([], Inr 1)
         \<and> matprop_factor qp s 1 = ([MatPropRead qp], Inr (1 * m))
         \<and> OpalinusPermeabilityTensor_computeQpProperties h qp s =
             ([MatPropRead qp],
              Inr (s\<lparr>permeability_qp :=
                       (permeability_qp s)[qp := smult (input_permeability s) m]\<rparr>))"
proof -
  have ff: "functor_factor h qp s = ([], Inr 1)"
    using assms(1) by (simp add: functor_factor_def)
  have mf: "matprop_factor qp s 1 = ([MatPropRead qp], Inr (1 * m))"
    using assms(2,4) by (simp add: matprop_factor_def)
  have "OpalinusPermeabilityTensor_computeQpProperties h qp s =
             ([MatPropRead qp],
              Inr (s\<lparr>permeability_qp :=
                       (permeability_qp s)[qp := smult (input_permeability s) m]\<rparr>))"
    using assms(2,3) mf
    by (simp add: OpalinusPermeabilityTensor_computeQpProperties_def ff
        publish_permeability_in_range)
  with ff mf show ?thesis
    by blast
qed

theorem C5_matprop_only_witness:
  "prefactor_functor (sample_permeability None (Some (constant_matprop 3))) = None
   \<and> constant_matprop 3 1 = Inr 3
   \<and> OpalinusPermeabilityTensor_computeQpProperties sample_host 1
        (sample_permeability None (Some (constant_matprop 3)))
      = ([MatPropRead 1],
         Inr ((sample_permeability None (Some (constant_matprop 3)))
               \<lparr>permeability_qp := [zero_tensor, Tensor33 6 0 0 0 3 0 0 0 9]\<rparr>))"
proof -
  let ?s = "sample_permeability None (Some (constant_matprop 3))"
  have h1: "prefactor_functor ?s = None"
    and h2: "prefactor_matprop ?s = Some (constant_matprop 3)"
    and h3: "1 < length (permeability_qp ?s)"
    by (simp_all add: sample_permeability_fields)
  have h4: "constant_matprop 3 1 = Inr 3"
    by (simp add: constant_matprop_def)
  have upd: "(permeability_qp ?s)[1 := smult (input_permeability ?s) 3]
      = [zero_tensor, Tensor33 6 0 0 0 3 0 0 0 9]"
    by (simp add: sample_permeability_fields sample_K)
  from C5_matprop_only [OF h1 h2 h3 h4, of sample_host]
  have "OpalinusPermeabilityTensor_computeQpProperties sample_host 1 ?s
      = ([MatPropRead 1],
         Inr (?s\<lparr>permeability_qp := [zero_tensor, Tensor33 6 0 0 0 3 0 0 0 9]\<rparr>))"
    by (simp only: upd)
  with h1 h4 show ?thesis
    by blast
qed

text \<open>
  Claim C6. From construction on and after any traversal of the host, for every
  configuration, the two derivative properties hold the empty sequence at every quadrature
  point.
\<close>

theorem C6_derivatives_empty:
  assumes "host_traversal calls
             (OpalinusPermeabilityTensor_new lcs k1 k2 k3 functor matprop n_qp) = Inr s"
  shows "length (dpermeability_qp_dvar s) = n_qp
     \<and> length (dpermeability_qp_dgradvar s) = n_qp
     \<and> (\<forall>qp < n_qp. dpermeability_qp_dvar s ! qp = []
                     \<and> dpermeability_qp_dgradvar s ! qp = [])"
  using host_traversal_derivatives [OF assms]
  by (simp add: OpalinusPermeabilityTensor_new_def)

theorem C6_derivatives_empty_witness:
  "\<exists>s. host_traversal [(sample_host, 0), (sample_host, 1)]
          (OpalinusPermeabilityTensor_new sample_lcs 1 2 3 (Some (constant_functor 2))
             (Some (constant_matprop (1 / 2))) 2) = Inr s
       \<and> dpermeability_qp_dvar s = [[], []]
       \<and> dpermeability_qp_dgradvar s = [[], []]"
proof -
  let ?s = "OpalinusPermeabilityTensor_new sample_lcs 1 2 3 (Some (constant_functor 2))
             (Some (constant_matprop (1 / 2))) 2"
  obtain s where run: "host_traversal [(sample_host, 0), (sample_host, 1)] ?s = Inr s"
    by (simp add: evaluator_defs OpalinusPermeabilityTensor_new_def sample_host_fields
        constant_functor_def constant_matprop_def)
  from C6_derivatives_empty [OF run]
  have len: "length (dpermeability_qp_dvar s) = 2" "length (dpermeability_qp_dgradvar s) = 2"
    and el: "dpermeability_qp_dvar s ! 0 = []" "dpermeability_qp_dvar s ! 1 = []"
      "dpermeability_qp_dgradvar s ! 0 = []" "dpermeability_qp_dgradvar s ! 1 = []"
    by simp_all
  have "xs = [xs ! 0, xs ! 1]" if "length xs = 2" for xs :: "'a list"
    using that by (cases xs; cases "tl xs") auto
  from this [OF len(1)] this [OF len(2)] el
  have "dpermeability_qp_dvar s = [[], []]" "dpermeability_qp_dgradvar s = [[], []]"
    by simp_all
  with run show ?thesis
    by blast
qed

section \<open>Properties shared by the two evaluators\<close>

text \<open>
  Claim C7. A call of either evaluator that publishes, at a quadrature point where a
  configured prefactor evaluates to zero, publishes the zero tensor: for the permeability
  the functor or the material property is zero there, for the elasticity the prefactor
  function is.
\<close>

theorem C7_zero_prefactor:
  "(OpalinusPermeabilityTensor_computeQpProperties h qp s = (tr, Inr s')
      \<and> ((\<exists>fn. prefactor_functor s = Some fn
                 \<and> fn \<lparr> arg_elem = current_elem h, arg_qp = qp, arg_qrule = qrule h,
                        arg_point = q_point h ! qp \<rparr> (determineState h) = Inr 0)
          \<or> (\<exists>mp. prefactor_matprop s = Some mp \<and> mp qp = Inr 0))
      \<longrightarrow> permeability_qp s' ! qp = zero_tensor)
   \<and> (OpalinusElasticityTensor_computeQpProperties h qp e = Inr e'
      \<and> (\<exists>fn. prefactor_function e = Some fn
                \<and> fn (current_time h) (q_point h ! qp) = Inr 0)
      \<longrightarrow> is_zero4 (elasticity_tensor e' ! qp))"
proof (intro conjI impI)
  assume "OpalinusPermeabilityTensor_computeQpProperties h qp s = (tr, Inr s')
      \<and> ((\<exists>fn. prefactor_functor s = Some fn
                 \<and> fn \<lparr> arg_elem = current_elem h, arg_qp = qp, arg_qrule = qrule h,
                        arg_point = q_point h ! qp \<rparr> (determineState h) = Inr 0)
          \<or> (\<exists>mp. prefactor_matprop s = Some mp \<and> mp qp = Inr 0))"
  then show "permeability_qp s' ! qp = zero_tensor"
    using permeability_zero_prefactor by blast
next
  assume a: "OpalinusElasticityTensor_computeQpProperties h qp e = Inr e'
      \<and> (\<exists>fn. prefactor_function e = Some fn
                \<and> fn (current_time h) (q_point h ! qp) = Inr 0)"
  then obtain fn where fn: "prefactor_function e = Some fn"
    and z: "fn (current_time h) (q_point h ! qp) = Inr 0"
    by blast
  from a elasticity_computeQpProperties_Inr obtain C
    where C: "scaled_elasticity h qp e = Inr C"
      and r: "qp < length (elasticity_tensor e)"
      and e': "elasticity_tensor e' = (elasticity_tensor e)[qp := C]"
    by fastforce
  from C fn z have "C = smult4 (Cijkl e) 0"
    by (auto simp: scaled_elasticity_def array_get_def split: if_splits sum.splits)
  then show "is_zero4 (elasticity_tensor e' ! qp)"
    using r by (simp add: e' smult4_zero)
qed

theorem C7_zero_prefactor_witness:
  "(\<exists>tr s'. OpalinusPermeabilityTensor_computeQpProperties sample_host 0
        (sample_permeability None (Some (constant_matprop 0))) = (tr, Inr s')
      \<and> prefactor_matprop (sample_permeability None (Some (constant_matprop 0)))
          = Some (constant_matprop 0)
      \<and> constant_matprop 0 0 = Inr 0
      \<and> permeability_qp s' ! 0 = zero_tensor)
   \<and> (\<exists>e'. OpalinusElasticityTensor_computeQpProperties sample_host 0
        (sample_elasticity (Some (constant_function 0))) = Inr e'
      \<and> prefactor_function (sample_elasticity (Some (constant_function 0)))
          = Some (constant_function 0)
      \<and> constant_function 0 (current_time sample_host) (q_point sample_host ! 0) = Inr 0
      \<and> is_zero4 (elasticity_tensor e' ! 0))"
proof -
  let ?s = "sample_permeability None (Some (constant_matprop 0))"
  let ?e = "sample_elasticity (Some (constant_function 0))"
  obtain tr s' where runP:
    "OpalinusPermeabilityTensor_computeQpProperties sample_host 0 ?s = (tr, Inr s')"
    by (simp add: evaluator_defs sample_permeability_fields constant_matprop_def)
  obtain e' where runE:
    "OpalinusElasticityTensor_computeQpProperties sample_host 0 ?e = Inr e'"
    using sample_elasticity_runs [of 0 0] by auto
  have mp: "prefactor_matprop ?s = Some (constant_matprop 0)"
    by (simp add: sample_permeability_fields)
  have mp0: "constant_matprop 0 0 = Inr 0"
    by (simp add: constant_matprop_def)
  have fn: "prefactor_function ?e = Some (constant_function 0)"
    by (simp add: sample_elasticity_fields)
  have fn0: "constant_function 0 (current_time sample_host) (q_point sample_host ! 0) = Inr 0"
    by (simp add: constant_function_def)
  note c7 = C7_zero_prefactor [of sample_host 0 ?s tr s' ?e e']
  from c7 runP mp mp0 have zP: "permeability_qp s' ! 0 = zero_tensor"
    by blast
  from c7 runE fn fn0 have zE: "is_zero4 (elasticity_tensor e' ! 0)"
    by blast
  from runP mp mp0 zP runE fn fn0 zE show ?thesis
    by blast
qed

section \<open>Properties of the elasticity evaluator\<close>

text \<open>
  Claim C8. The elasticity evaluator at a quadrature point in range: without a prefactor
  function it publishes the stored tensor \<open>C\<close> unchanged; with a prefactor function whose
  value at the physical coordinates of the point and the current time is \<open>f\<close>, it publishes
  \<open>C * f\<close>.
\<close>

theorem C8_elasticity_published:
  assumes "qp < length (elasticity_tensor s)" and "qp < length (first_local_axis s)"
    and "qp < length (second_local_axis s)" and "qp < length (normal_local_axis s)"
  shows "(prefactor_function s = None \<longrightarrow>
            (\<exists>s'. OpalinusElasticityTensor_computeQpProperties h qp s = Inr s'
                 \<and> elasticity_tensor s' ! qp = Cijkl s))
     \<and> (\<forall>fn f. prefactor_function s = Some fn \<and> qp < length (q_point h)
                 \<and> fn (current_time h) (q_point h ! qp) = Inr f \<longrightarrow>
            (\<exists>s'. OpalinusElasticityTensor_computeQpProperties h qp s = Inr s'
                 \<and> elasticity_tensor s' ! qp = smult4 (Cijkl s) f))"
proof (intro conjI allI impI)
  assume "prefactor_function s = None"
  then have "scaled_elasticity h qp s = Inr (Cijkl s)"
    by (simp add: scaled_elasticity_def)
  from elasticity_computeQpProperties_in_range [OF this assms] assms(1)
  show "\<exists>s'. OpalinusElasticityTensor_computeQpProperties h qp s = Inr s'
                 \<and> elasticity_tensor s' ! qp = Cijkl s"
    by simp
next
  fix fn f
  assume "prefactor_function s = Some fn \<and> qp < length (q_point h)
                 \<and> fn (current_time h) (q_point h ! qp) = Inr f"
  then have "scaled_elasticity h qp s = Inr (smult4 (Cijkl s) f)"
    by (simp add: scaled_elasticity_def array_get_def)
  from elasticity_computeQpProperties_in_range [OF this assms] assms(1)
  show "\<exists>s'. OpalinusElasticityTensor_computeQpProperties h qp s = Inr s'
                 \<and> elasticity_tensor s' ! qp = smult4 (Cijkl s) f"
    by simp
qed

theorem C8_elasticity_published_witness:
  "(\<exists>s'. OpalinusElasticityTensor_computeQpProperties sample_host 1
           (sample_elasticity None) = Inr s'
        \<and> elasticity_tensor s' ! 1 = RankFourTensor (replicate 81 4))
   \<and> constant_function 2 (current_time sample_host) (q_point sample_host ! 1) = Inr 2
   \<and> (\<exists>s'. OpalinusElasticityTensor_computeQpProperties sample_host 1
           (sample_elasticity (Some (constant_function 2))) = Inr s'
        \<and> elasticity_tensor s' ! 1 = RankFourTensor (replicate 81 8))"
proof -
  have r: "1 < length (elasticity_tensor (sample_elasticity fn))"
    "1 < length (first_local_axis (sample_elasticity fn))"
    "1 < length (second_local_axis (sample_elasticity fn))"
    "1 < length (normal_local_axis (sample_elasticity fn))" for fn
    by (simp_all add: sample_elasticity_fields)
  have f2: "constant_function 2 (current_time sample_host) (q_point sample_host ! 1) = Inr 2"
    by (simp add: constant_function_def)
  from C8_elasticity_published [OF r, of None sample_host]
  have plain: "\<exists>s'. OpalinusElasticityTensor_computeQpProperties sample_host 1
           (sample_elasticity None) = Inr s'
        \<and> elasticity_tensor s' ! 1 = RankFourTensor (replicate 81 4)"
    by (simp add: sample_elasticity_fields)
  from C8_elasticity_published [OF r, of "Some (constant_function 2)" sample_host] f2
  have scaled: "\<exists>s'. OpalinusElasticityTensor_computeQpProperties sample_host 1
           (sample_elasticity (Some (constant_function 2))) = Inr s'
        \<and> elasticity_tensor s' ! 1 = RankFourTensor (replicate 81 8)"
    by (simp add: sample_elasticity_fields sample_host_fields)
  from plain f2 scaled show ?thesis
    by blast
qed



section \<open>What a call leaves unchanged\<close>

text \<open>
  Claim C10. A call that returns changes the permeability slot of the current quadrature
  point and nothing else: the other permeability slots, the stored tensor, the local
  coordinate system, the three principal permeabilities, the two prefactor sources and the
  derivative properties at every quadrature point are the ones before the call.
\<close>

theorem C10_frame:
  assumes "OpalinusPermeabilityTensor_computeQpProperties h qp s = (tr, Inr s')"
  shows "s' = s\<lparr>permeability_qp := (permeability_qp s)[qp := permeability_qp s' ! qp]\<rparr>
     \<and> length (permeability_qp s') = length (permeability_qp s)
     \<and> (\<forall>i. i \<noteq> qp \<longrightarrow> permeability_qp s' ! i = permeability_qp s ! i)
     \<and> input_permeability s' = input_permeability s
     \<and> localCoordinateSystem s' = localCoordinateSystem s
     \<and> permeability1 s' = permeability1 s
     \<and> permeability2 s' = permeability2 s
     \<and> permeability3 s' = permeability3 s
     \<and> prefactor_functor s' = prefactor_functor s
     \<and> prefactor_matprop s' = prefactor_matprop s
     \<and> dpermeability_qp_dvar s' = dpermeability_qp_dvar s
     \<and> dpermeability_qp_dgradvar s' = dpermeability_qp_dgradvar s"
proof -
  from computeQpProperties_frame [OF assms]
  obtain v where r: "qp < length (permeability_qp s)"
    and s': "s' = s\<lparr>permeability_qp := (permeability_qp s)[qp := v]\<rparr>"
    by blast
  show ?thesis
    using r by (simp add: s')
qed

theorem C10_frame_witness:
  "\<exists>tr s'. OpalinusPermeabilityTensor_computeQpProperties sample_host 0
        (sample_permeability (Some (constant_functor 2)) (Some (constant_matprop (1 / 2))))
        = (tr, Inr s')
     \<and> permeability_qp s' ! 1 = zero_tensor
     \<and> input_permeability s' = Tensor33 2 0 0 0 1 0 0 0 3
     \<and> permeability1 s' = 1 \<and> permeability2 s' = 2 \<and> permeability3 s' = 3
     \<and> dpermeability_qp_dvar s' = [[], []]
     \<and> dpermeability_qp_dgradvar s' = [[], []]"
proof -
  let ?s = "sample_permeability (Some (constant_functor 2)) (Some (constant_matprop (1 / 2)))"
  obtain tr s' where run:
    "OpalinusPermeabilityTensor_computeQpProperties sample_host 0 ?s = (tr, Inr s')"
    by (simp add: evaluator_defs sample_permeability_fields sample_host_fields
        constant_functor_def constant_matprop_def)
  from C10_frame [OF run]
  have "permeability_qp s' ! 1 = zero_tensor"
    and "input_permeability s' = Tensor33 2 0 0 0 1 0 0 0 3"
    and "permeability1 s' = 1 \<and> permeability2 s' = 2 \<and> permeability3 s' = 3"
    and "dpermeability_qp_dvar s' = [[], []]"
    and "dpermeability_qp_dgradvar s' = [[], []]"
    by (simp_all add: sample_permeability_fields sample_K)
      (simp_all add: sample_permeability_def OpalinusPermeabilityTensor_new_def)
  with run show ?thesis
    by blast
qed

end
